theory Spec2Isabelle
  imports Main
begin

section \<open>JavaScript values as the token script sees them\<close>

text \<open>
  The token script (the DTCG version of \<open>tokens-to-scss.js\<close>) works on the result of
  \<open>JSON.parse\<close>. A value is one of the JavaScript types below; \<open>JUndefined\<close> is what a
  read of a missing property yields. An object is the list of its own properties in the
  order \<open>Object.entries\<close> enumerates them. Numbers are kept abstract (type \<open>'n\<close>): the
  script only renders them and tests them for truthiness, and both operations belong to
  the engine, so they are the two fields of the runtime record. Numbers parsed from JSON
  are finite.
\<close>

datatype 'n jsval =
    JUndefined
  | JNull
  | JBool bool
  | JNum 'n
  | JStr string
  | JArr "'n jsval list"
  | JObj "(string \<times> 'n jsval) list"

datatype js_error = TypeError

record 'n runtime =
  numberToString :: "'n \<Rightarrow> string"
  numberToBoolean :: "'n \<Rightarrow> bool"

definition bindE :: "'e + 'a \<Rightarrow> ('a \<Rightarrow> 'e + 'b) \<Rightarrow> 'e + 'b" where
  "bindE m f = (case m of Inl e \<Rightarrow> Inl e | Inr x \<Rightarrow> f x)"

text \<open>\<open>typeof v\<close>, for the three answers the script asks about, and \<open>Array.isArray\<close>.\<close>

fun typeofString :: "'n jsval \<Rightarrow> bool" where
  "typeofString (JStr s) = True"
| "typeofString v = False"

fun typeofNumber :: "'n jsval \<Rightarrow> bool" where
  "typeofNumber (JNum n) = True"
| "typeofNumber v = False"

fun typeofObject :: "'n jsval \<Rightarrow> bool" where
  "typeofObject JNull = True"
| "typeofObject (JArr xs) = True"
| "typeofObject (JObj fs) = True"
| "typeofObject v = False"

fun isArray :: "'n jsval \<Rightarrow> bool" where
  "isArray (JArr xs) = True"
| "isArray v = False"

fun elems :: "'n jsval \<Rightarrow> 'n jsval list" where
  "elems (JArr xs) = xs"
| "elems v = []"

text \<open>Truthiness (\<open>ToBoolean\<close>), as used by \<open>&&\<close>, \<open>||\<close> and \<open>?:\<close>.\<close>

fun truthy :: "'n runtime \<Rightarrow> 'n jsval \<Rightarrow> bool" where
  "truthy rt JUndefined = False"
| "truthy rt JNull = False"
| "truthy rt (JBool b) = b"
| "truthy rt (JNum n) = numberToBoolean rt n"
| "truthy rt (JStr s) = (s \<noteq> [])"
| "truthy rt (JArr xs) = True"
| "truthy rt (JObj fs) = True"

text \<open>
  Property reads. The script reads only the names \<open>$value\<close>, \<open>value\<close>, \<open>unit\<close>,
  \<open>offsetX\<close>, \<open>offsetY\<close>, \<open>blur\<close>, \<open>spread\<close>, \<open>color\<close> and \<open>$type\<close>, none of which is
  inherited from a prototype: on an object the read finds an own property or yields
  \<open>undefined\<close>, on a string, number, boolean or array it yields \<open>undefined\<close>, and on
  \<open>null\<close> or \<open>undefined\<close> it throws a \<open>TypeError\<close>. \<open>readProp\<close> is the read where the source
  has already excluded \<open>null\<close>; \<open>getProp\<close> is the read that may throw.
\<close>

fun readProp :: "'n jsval \<Rightarrow> string \<Rightarrow> 'n jsval" where
  "readProp (JObj fs) k = (case map_of fs k of None \<Rightarrow> JUndefined | Some v \<Rightarrow> v)"
| "readProp v k = JUndefined"

fun getProp :: "'n jsval \<Rightarrow> string \<Rightarrow> js_error + 'n jsval" where
  "getProp JUndefined k = Inl TypeError"
| "getProp JNull k = Inl TypeError"
| "getProp v k = Inr (readProp v k)"

text \<open>
  \<open>String(v)\<close> and \<open>${v}\<close> (\<open>ToString\<close>). An array is joined with commas, where
  \<open>Array.prototype.join\<close> renders \<open>null\<close> and \<open>undefined\<close> elements as the empty string.
  A plain object is \<open>[object Object]\<close>, unless it has an own property \<open>toString\<close>: parsed
  from JSON that property is not callable, and the conversion throws a \<open>TypeError\<close>.
\<close>

fun toStringJS :: "'n runtime \<Rightarrow> 'n jsval \<Rightarrow> js_error + string"
  and joinJS :: "'n runtime \<Rightarrow> string \<Rightarrow> 'n jsval list \<Rightarrow> js_error + string"
where
  "toStringJS rt JUndefined = Inr ''undefined''"
| "toStringJS rt JNull = Inr ''null''"
| "toStringJS rt (JBool b) = Inr (if b then ''true'' else ''false'')"
| "toStringJS rt (JNum n) = Inr (numberToString rt n)"
| "toStringJS rt (JStr s) = Inr s"
| "toStringJS rt (JArr xs) = joinJS rt '','' xs"
| "toStringJS rt (JObj fs) =
     (if ''toString'' \<in> fst ` set fs then Inl TypeError else Inr ''[object Object]'')"
| "joinJS rt sep [] = Inr []"
| "joinJS rt sep (x # xs) =
     bindE (if x = JUndefined \<or> x = JNull then Inr [] else toStringJS rt x) (\<lambda>a.
       if xs = [] then Inr a
       else bindE (joinJS rt sep xs) (\<lambda>b. Inr (a @ sep @ b)))"

text \<open>Joining strings, as \<open>join\<close> does on an array whose elements are already strings.\<close>

fun joinStrings :: "string \<Rightarrow> string list \<Rightarrow> string" where
  "joinStrings sep [] = []"
| "joinStrings sep [a] = a"
| "joinStrings sep (a # b # bs) = a @ sep @ joinStrings sep (b # bs)"

fun mapE :: "('a \<Rightarrow> 'e + 'b) \<Rightarrow> 'a list \<Rightarrow> 'e + 'b list" where
  "mapE f [] = Inr []"
| "mapE f (x # xs) = bindE (f x) (\<lambda>y. bindE (mapE f xs) (\<lambda>ys. Inr (y # ys)))"

text \<open>
  \<open>JSON.stringify(v)\<close> without indentation. A string is quoted, with the escapes of
  \<open>QuoteJSONString\<close>; in an object a property whose value is \<open>undefined\<close> is left out, in
  an array such an element is \<open>null\<close>. (A \<open>toJSON\<close> property parsed from JSON is not
  callable and is serialised like any other.)
\<close>

definition hexDigit :: "nat \<Rightarrow> char" where
  "hexDigit d = ''0123456789abcdef'' ! d"

definition quoteChar :: "char \<Rightarrow> string" where
  "quoteChar c =
     (if c = CHR 0x22 then [CHR 0x5C, CHR 0x22]
      else if c = CHR 0x5C then [CHR 0x5C, CHR 0x5C]
      else if c = CHR 0x08 then [CHR 0x5C, CHR ''b'']
      else if c = CHR 0x0C then [CHR 0x5C, CHR ''f'']
      else if c = CHR 0x0A then [CHR 0x5C, CHR ''n'']
      else if c = CHR 0x0D then [CHR 0x5C, CHR ''r'']
      else if c = CHR 0x09 then [CHR 0x5C, CHR ''t'']
      else if (of_char c :: nat) < 32
      then [CHR 0x5C, CHR ''u'', CHR ''0'', CHR ''0'',
            hexDigit (of_char c div 16), hexDigit (of_char c mod 16)]
      else [c])"

definition quoteJSON :: "string \<Rightarrow> string" where
  "quoteJSON s = [CHR 0x22] @ concat (map quoteChar s) @ [CHR 0x22]"

fun jsonStringify :: "'n runtime \<Rightarrow> 'n jsval \<Rightarrow> string"
  and jsonElements :: "'n runtime \<Rightarrow> 'n jsval list \<Rightarrow> string list"
  and jsonMembers :: "'n runtime \<Rightarrow> (string \<times> 'n jsval) list \<Rightarrow> string list"
where
  "jsonStringify rt JUndefined = ''null''"
| "jsonStringify rt JNull = ''null''"
| "jsonStringify rt (JBool b) = (if b then ''true'' else ''false'')"
| "jsonStringify rt (JNum n) = numberToString rt n"
| "jsonStringify rt (JStr s) = quoteJSON s"
| "jsonStringify rt (JArr xs) = ''['' @ joinStrings '','' (jsonElements rt xs) @ '']''"
| "jsonStringify rt (JObj fs) = ''{'' @ joinStrings '','' (jsonMembers rt fs) @ ''}''"
| "jsonElements rt [] = []"
| "jsonElements rt (x # xs) = jsonStringify rt x # jsonElements rt xs"
| "jsonMembers rt [] = []"
| "jsonMembers rt ((k, v) # fs) =
     (if v = JUndefined then jsonMembers rt fs
      else (quoteJSON k @ '':'' @ jsonStringify rt v) # jsonMembers rt fs)"

section \<open>Value conversion\<close>

text \<open>\<open>extractValue\<close>: the DTCG \<open>$value\<close> first, then the legacy \<open>value\<close>, else \<open>null\<close>.\<close>

definition extractValue :: "'n jsval \<Rightarrow> js_error + 'n jsval" where
  "extractValue token =
     bindE (getProp token ''$value'') (\<lambda>v.
       if v \<noteq> JUndefined then Inr v
       else bindE (getProp token ''value'') (\<lambda>w.
         if w \<noteq> JUndefined then Inr w else Inr JNull))"

text \<open>
  \<open>dimensionToCss\<close>: a string is returned as it is; an object with a \<open>value\<close> that is not
  \<open>undefined\<close> and a truthy \<open>unit\<close> becomes \<open>${dim.value}${dim.unit}\<close>; anything else is
  \<open>String(dim)\<close>.
\<close>

definition dimensionToCss :: "'n runtime \<Rightarrow> 'n jsval \<Rightarrow> js_error + string" where
  "dimensionToCss rt dim =
     (case dim of
        JStr s \<Rightarrow> Inr s
      | _ \<Rightarrow>
        if truthy rt dim \<and> typeofObject dim \<and> readProp dim ''value'' \<noteq> JUndefined
           \<and> truthy rt (readProp dim ''unit'')
        then bindE (toStringJS rt (readProp dim ''value'')) (\<lambda>a.
               bindE (toStringJS rt (readProp dim ''unit'')) (\<lambda>b. Inr (a @ b)))
        else toStringJS rt dim)"

definition cubicBezierToCss :: "'n runtime \<Rightarrow> 'n jsval \<Rightarrow> js_error + string" where
  "cubicBezierToCss rt arr =
     (if isArray arr \<and> length (elems arr) = 4
      then bindE (joinJS rt '', '' (elems arr)) (\<lambda>s. Inr (''cubic-bezier('' @ s @ '')''))
      else toStringJS rt arr)"

definition singleShadowToCss :: "'n runtime \<Rightarrow> 'n jsval \<Rightarrow> js_error + string" where
  "singleShadowToCss rt s =
     bindE (bindE (getProp s ''offsetX'') (dimensionToCss rt)) (\<lambda>ox.
     bindE (bindE (getProp s ''offsetY'') (dimensionToCss rt)) (\<lambda>oy.
     bindE (bindE (getProp s ''blur'') (dimensionToCss rt)) (\<lambda>bl.
     bindE (bindE (getProp s ''spread'') (dimensionToCss rt)) (\<lambda>sp.
     bindE (bindE (getProp s ''color'') (toStringJS rt)) (\<lambda>c.
       Inr (ox @ '' '' @ oy @ '' '' @ bl @ '' '' @ sp @ '' '' @ c))))))"

definition shadowToCss :: "'n runtime \<Rightarrow> 'n jsval \<Rightarrow> js_error + string" where
  "shadowToCss rt val =
     (if isArray val
      then bindE (mapE (singleShadowToCss rt) (elems val)) (\<lambda>ss. Inr (joinStrings '', '' ss))
      else singleShadowToCss rt val)"

text \<open>
  \<open>valueToCss\<close> returns a string or \<open>null\<close> (\<open>None\<close>). The type tag is any value; the
  script compares it with \<open>===\<close> against \<open>'cubicBezier'\<close> and \<open>'shadow'\<close>.
\<close>

definition valueToCss :: "'n runtime \<Rightarrow> 'n jsval \<Rightarrow> 'n jsval \<Rightarrow> js_error + string option" where
  "valueToCss rt val type =
     (if val = JNull \<or> val = JUndefined then Inr None
      else if typeofString val then bindE (toStringJS rt val) (\<lambda>s. Inr (Some s))
      else if typeofNumber val then bindE (toStringJS rt val) (\<lambda>s. Inr (Some s))
      else if isArray val then
        (if type = JStr ''cubicBezier'' then bindE (cubicBezierToCss rt val) (\<lambda>s. Inr (Some s))
         else if type = JStr ''shadow'' then bindE (shadowToCss rt val) (\<lambda>s. Inr (Some s))
         else bindE (toStringJS rt val) (\<lambda>s. Inr (Some s)))
      else if typeofObject val then
        (if readProp val ''value'' \<noteq> JUndefined \<and> readProp val ''unit'' \<noteq> JUndefined
         then bindE (dimensionToCss rt val) (\<lambda>s. Inr (Some s))
         else if readProp val ''offsetX'' \<noteq> JUndefined
         then bindE (singleShadowToCss rt val) (\<lambda>s. Inr (Some s))
         else Inr (Some (jsonStringify rt val)))
      else bindE (toStringJS rt val) (\<lambda>s. Inr (Some s)))"

section \<open>Token flattening\<close>

text \<open>Decimal rendering of an array index, as \<open>Object.entries\<close> names array elements.\<close>

definition digitChar :: "nat \<Rightarrow> char" where
  "digitChar d = ''0123456789'' ! d"

fun showNat :: "nat \<Rightarrow> string" where
  "showNat n = (if n < 10 then [digitChar n] else showNat (n div 10) @ [digitChar (n mod 10)])"

declare showNat.simps [simp del]

text \<open>\<open>key.startsWith(p)\<close>.\<close>

definition startsWith :: "string \<Rightarrow> string \<Rightarrow> bool" where
  "startsWith s p = (take (length p) s = p)"

text \<open>
  \<open>Object.entries(obj)\<close>: throws on \<open>null\<close> and \<open>undefined\<close>, is empty for a boolean or
  a number, lists the characters of a string and the elements of an array under their
  indices, and the own properties of an object.
\<close>

fun entries :: "'n jsval \<Rightarrow> js_error + (string \<times> 'n jsval) list" where
  "entries JUndefined = Inl TypeError"
| "entries JNull = Inl TypeError"
| "entries (JBool b) = Inr []"
| "entries (JNum n) = Inr []"
| "entries (JStr s) = Inr (zip (map showNat [0..<length s]) (map (\<lambda>c. JStr [c]) s))"
| "entries (JArr xs) = Inr (zip (map showNat [0..<length xs]) xs)"
| "entries (JObj fs) = Inr fs"

text \<open>\<open>(value && value.$type) || parentType\<close>.\<close>

definition localTypeOf :: "'n runtime \<Rightarrow> 'n jsval \<Rightarrow> 'n jsval \<Rightarrow> 'n jsval" where
  "localTypeOf rt value parentType =
     (let declared = (if truthy rt value then readProp value ''$type'' else value)
      in if truthy rt declared then declared else parentType)"

lemma weight_zip:
  "length ks = length xs \<Longrightarrow>
   (\<Sum>kv\<leftarrow>zip ks xs. Suc (g (snd kv))) = (\<Sum>x\<leftarrow>xs. Suc (g x))"
  by (induction ks xs rule: list_induct2) auto

lemma weight_array: "(\<Sum>x\<leftarrow>xs. Suc (size x)) = size_list size xs"
  by (induction xs) auto

lemma weight_object:
  "(\<Sum>kv\<leftarrow>fs. Suc (size (snd kv))) \<le> size_list (size_prod (\<lambda>x. 0) size) fs"
  by (induction fs) auto

lemma weight_chars: "(\<Sum>c\<leftarrow>s. Suc (Suc 0)) = 2 * length s"
  by (induction s) auto

text \<open>
  Writes to the result object, which is modelled by its mapping from keys to CSS strings
  (the order of enumeration is not modelled). The result is a plain object, so the
  assignment \<open>result[newKey] = css\<close> with the key \<open>__proto__\<close> reaches the setter inherited
  from \<open>Object.prototype\<close>, which ignores a string: no property is stored. Every other key
  is stored. \<open>Object.assign(result, sub)\<close> assigns each property of \<open>sub\<close> in the same way.
\<close>

definition setProperty :: "(string \<rightharpoonup> string) \<Rightarrow> string \<Rightarrow> string \<Rightarrow> (string \<rightharpoonup> string)" where
  "setProperty result k v = (if k = ''__proto__'' then result else result(k \<mapsto> v))"

definition objectAssign :: "(string \<rightharpoonup> string) \<Rightarrow> (string \<rightharpoonup> string) \<Rightarrow> (string \<rightharpoonup> string)" where
  "objectAssign result sub = result ++ (sub(''__proto__'' := None))"

text \<open>
  \<open>flattenTokens(obj, parentKey, parentType)\<close>; \<open>flattenLoop\<close> is the \<open>for\<close> loop over the
  entries, with the result built so far. An exception thrown anywhere leaves the function
  at once (\<open>Inl\<close>).
\<close>

function flattenTokens ::
    "'n runtime \<Rightarrow> 'n jsval \<Rightarrow> string \<Rightarrow> 'n jsval \<Rightarrow> js_error + (string \<rightharpoonup> string)"
  and flattenLoop ::
    "'n runtime \<Rightarrow> (string \<times> 'n jsval) list \<Rightarrow> string \<Rightarrow> 'n jsval \<Rightarrow>
       (string \<rightharpoonup> string) \<Rightarrow> js_error + (string \<rightharpoonup> string)"
where
  "flattenTokens rt obj parentKey parentType =
     (case entries obj of
        Inl e \<Rightarrow> Inl e
      | Inr es \<Rightarrow> flattenLoop rt es parentKey parentType Map.empty)"
| "flattenLoop rt [] parentKey parentType result = Inr result"
| "flattenLoop rt ((key, value) # rest) parentKey parentType result =
     (if startsWith key ''$'' then flattenLoop rt rest parentKey parentType result
      else
        let newKey = (if parentKey \<noteq> [] then parentKey @ ''-'' @ key else key);
            localType = localTypeOf rt value parentType
        in case (if typeofObject value then extractValue value else Inr JNull) of
             Inl e \<Rightarrow> Inl e
           | Inr tokenValue \<Rightarrow>
               if tokenValue \<noteq> JNull then
                 (case valueToCss rt tokenValue localType of
                    Inl e \<Rightarrow> Inl e
                  | Inr css \<Rightarrow>
                      flattenLoop rt rest parentKey parentType
                        (case css of None \<Rightarrow> result | Some s \<Rightarrow> setProperty result newKey s))
               else if truthy rt value \<and> typeofObject value then
                 (case flattenTokens rt value newKey localType of
                    Inl e \<Rightarrow> Inl e
                  | Inr sub \<Rightarrow> flattenLoop rt rest parentKey parentType (objectAssign result sub))
               else flattenLoop rt rest parentKey parentType result)"
  by pat_completeness auto
termination
  apply (relation "measure (\<lambda>x. case x of
      Inl (rt, obj, pk, pt) \<Rightarrow>
        2 * (size obj + (case obj of JStr s \<Rightarrow> 2 * length s | _ \<Rightarrow> 0)) + 1
    | Inr (rt, es, pk, pt, res) \<Rightarrow> 2 * sum_list (map (\<lambda>kv. Suc (size (snd kv))) es))")
    apply simp
   apply (auto split: jsval.splits simp: weight_zip weight_array weight_chars comp_def)
  subgoal for fs using weight_object [of fs] by simp
  done

declare flattenTokens.simps [simp del]

section \<open>Reference resolution\<close>

definition PREFIX :: string where
  "PREFIX = ''atom''"

text \<open>The inner \<open>replace\<close> on the captured \<open>ref\<close>: every dot becomes a dash.\<close>

definition dotsToDashes :: "string \<Rightarrow> string" where
  "dotsToDashes ref = map (\<lambda>c. if c = CHR ''.'' then CHR ''-'' else c) ref"

text \<open>
  The global \<open>replace\<close> of \<open>cssValue\<close>, scanning from the left. The pattern (an opening
  brace, one or more characters other than \<open>}\<close>, a closing brace) matches
  at an opening brace when the longest run of characters other than \<open>}\<close> after it is not
  empty and is followed by a \<open>}\<close>; the run is the captured \<open>ref\<close>, and scanning goes on
  behind the closing brace. Everywhere else the character is copied.
\<close>

function replaceRefs :: "string \<Rightarrow> string" where
  "replaceRefs [] = []"
| "replaceRefs (c # cs) =
     (if c = CHR ''{'' \<and> takeWhile (\<lambda>x. x \<noteq> CHR ''}'') cs \<noteq> []
         \<and> dropWhile (\<lambda>x. x \<noteq> CHR ''}'') cs \<noteq> []
      then ''var(--'' @ PREFIX @ ''-'' @ dotsToDashes (takeWhile (\<lambda>x. x \<noteq> CHR ''}'') cs) @ '')''
           @ replaceRefs (tl (dropWhile (\<lambda>x. x \<noteq> CHR ''}'') cs))
      else c # replaceRefs cs)"
  by pat_completeness auto
termination
proof (relation "measure length")
  fix c :: char and cs :: string
  have "length (tl (dropWhile (\<lambda>x. x \<noteq> CHR ''}'') cs)) \<le> length cs"
    using length_dropWhile_le [of "\<lambda>x. x \<noteq> CHR ''}''" cs] by simp
  then show "(tl (dropWhile (\<lambda>x. x \<noteq> CHR ''}'') cs), c # cs) \<in> measure length"
    by simp
qed simp_all

definition resolveReferences :: "'n jsval \<Rightarrow> 'n jsval" where
  "resolveReferences cssValue =
     (case cssValue of JStr s \<Rightarrow> JStr (replaceRefs s) | _ \<Rightarrow> cssValue)"

text \<open>
  The two generators read the token files, call \<open>flattenTokens(data)\<close> with the defaults
  (the empty \<open>parentKey\<close> and the \<open>parentType\<close> \<open>null\<close>) and print one custom property per
  flattened entry, the semantic one after \<open>resolveReferences\<close>.
\<close>

section \<open>The module compiler\<close>

text \<open>
  \<open>build.js\<close> works on the file system. Its state is a mapping from the paths of regular
  files to their text (what \<open>readFileSync(p, 'utf8')\<close> returns) and the set of
  directories. A failing file operation throws, which ends the script (nothing in it
  catches such an exception): \<open>Inl\<close>. Paths are the normalised strings the script
  builds with \<open>path.join\<close> from its two roots \<open>SRC\<close> and \<open>DIST\<close>, which are parameters.
  The external compiler is run by \<open>execSync\<close>, a parameter as well: given the file system
  and the command line, it returns the file system it leaves behind and, when the command
  fails, the message that the \<open>catch\<close> block prints. The bundle of the extensions and the
  closing line of the log come after the steps modelled here.
\<close>

type_synonym path = string

datatype fs_error = ENOENT | EISDIR | EEXIST | ENOTDIR

record filesystem =
  files :: "path \<rightharpoonup> string"
  dirs :: "path set"

type_synonym shell = "filesystem \<Rightarrow> string \<Rightarrow> string option \<times> filesystem"

definition existsSync :: "filesystem \<Rightarrow> path \<Rightarrow> bool" where
  "existsSync fs p = (files fs p \<noteq> None \<or> p \<in> dirs fs)"

definition readFileSync :: "filesystem \<Rightarrow> path \<Rightarrow> fs_error + string" where
  "readFileSync fs p =
     (case files fs p of
        Some text \<Rightarrow> Inr text
      | None \<Rightarrow> if p \<in> dirs fs then Inl EISDIR else Inl ENOENT)"

definition writeFileSync :: "filesystem \<Rightarrow> path \<Rightarrow> string \<Rightarrow> fs_error + filesystem" where
  "writeFileSync fs p text =
     (if p \<in> dirs fs then Inl EISDIR else Inr (fs\<lparr>files := (files fs)(p \<mapsto> text)\<rparr>))"

definition pathJoin :: "path \<Rightarrow> path \<Rightarrow> path" where
  "pathJoin a b = a @ ''/'' @ b"

text \<open>\<open>path.dirname\<close> of a path that does not end in a slash.\<close>

definition dirname :: "path \<Rightarrow> path" where
  "dirname p =
     (if CHR ''/'' \<notin> set p then ''.''
      else if rev (tl (dropWhile (\<lambda>c. c \<noteq> CHR ''/'') (rev p))) = [] then ''/''
      else rev (tl (dropWhile (\<lambda>c. c \<noteq> CHR ''/'') (rev p))))"

text \<open>
  \<open>mkdirSync(dir, {recursive: true})\<close> creates the directory and every missing ancestor,
  and throws when a regular file is in the way.
\<close>

definition dirChain :: "path \<Rightarrow> path list" where
  "dirChain p = [take i p. i \<leftarrow> [1..<Suc (length p)], i = length p \<or> p ! i = CHR ''/'']"

definition mkdirSync :: "filesystem \<Rightarrow> path \<Rightarrow> fs_error + filesystem" where
  "mkdirSync fs dir =
     (if files fs dir \<noteq> None then Inl EEXIST
      else if list_ex (\<lambda>q. files fs q \<noteq> None) (dirChain dir) then Inl ENOTDIR
      else Inr (fs\<lparr>dirs := dirs fs \<union> set (dirChain dir)\<rparr>))"

record module =
  entry :: string
  output' :: string

definition modules :: "module list" where
  "modules =
     [\<lparr>entry = ''tokens/_primitive.scss'', output' = ''tokens/primitives.css''\<rparr>,
      \<lparr>entry = ''tokens/_semantic.scss'', output' = ''tokens/semantic.css''\<rparr>,
      \<lparr>entry = ''foundations/typography/_index.scss'', output' = ''foundations/typography.css''\<rparr>,
      \<lparr>entry = ''foundations/colors/_index.scss'', output' = ''foundations/colors.css''\<rparr>,
      \<lparr>entry = ''foundations/spacing/_index.scss'', output' = ''foundations/spacing.css''\<rparr>,
      \<lparr>entry = ''foundations/layout/_index.scss'', output' = ''foundations/layout.css''\<rparr>,
      \<lparr>entry = ''foundations/elevation/_index.scss'', output' = ''foundations/elevation.css''\<rparr>,
      \<lparr>entry = ''foundations/borders/_index.scss'', output' = ''foundations/borders.css''\<rparr>,
      \<lparr>entry = ''foundations/motion/_index.scss'', output' = ''foundations/motion.css''\<rparr>,
      \<lparr>entry = ''components/button/_index.scss'', output' = ''components/button.css''\<rparr>,
      \<lparr>entry = ''components/card/_index.scss'', output' = ''components/card.css''\<rparr>,
      \<lparr>entry = ''components/input/_index.scss'', output' = ''components/input.css''\<rparr>,
      \<lparr>entry = ''components/modal/_index.scss'', output' = ''components/modal.css''\<rparr>,
      \<lparr>entry = ''components/badge/_index.scss'', output' = ''components/badge.css''\<rparr>,
      \<lparr>entry = ''components/radio/_index.scss'', output' = ''components/radio.css''\<rparr>,
      \<lparr>entry = ''components/toggle/_index.scss'', output' = ''components/toggle.css''\<rparr>,
      \<lparr>entry = ''components/tag/_index.scss'', output' = ''components/tag.css''\<rparr>,
      \<lparr>entry = ''extensions/inbox/_index.scss'', output' = ''extensions/inbox.css''\<rparr>,
      \<lparr>entry = ''extensions/ai/_index.scss'', output' = ''extensions/ai.css''\<rparr>,
      \<lparr>entry = ''extensions/notifications/_index.scss'', output' = ''extensions/notifications.css''\<rparr>,
      \<lparr>entry = ''extensions/indicators/_index.scss'', output' = ''extensions/indicators.css''\<rparr>,
      \<lparr>entry = ''themes/_theme-dark.scss'', output' = ''themes/dark.css''\<rparr>,
      \<lparr>entry = ''utilities/_index.scss'', output' = ''utilities.css''\<rparr>]"

record build_state =
  fsys :: filesystem
  built :: nat
  skipped :: nat
  console :: "string list"
  commands :: "string list"

definition sassCommand :: "path \<Rightarrow> path \<Rightarrow> string" where
  "sassCommand entryPath outputPath =
     ''sass '' @ [CHR 0x22] @ entryPath @ [CHR 0x22] @ '' '' @ [CHR 0x22] @ outputPath @ [CHR 0x22]
       @ '' --style=expanded --no-source-map''"

text \<open>
  The body of the loop over the manifest. \<open>commands\<close> records every command line handed to
  \<open>execSync\<close>, \<open>console\<close> every line logged.
\<close>

definition compileModule ::
    "shell \<Rightarrow> path \<Rightarrow> path \<Rightarrow> module \<Rightarrow> build_state \<Rightarrow> fs_error + build_state" where
  "compileModule exec SRC DIST md st =
     (let entryPath = pathJoin SRC (entry md);
          outputPath = pathJoin DIST (output' md)
      in if \<not> existsSync (fsys st) entryPath
         then Inr (st\<lparr>skipped := Suc (skipped st),
                        console := console st @ [''  SKIP: '' @ entry md @ '' (not found)'']\<rparr>)
         else
           case mkdirSync (fsys st) (dirname outputPath) of
             Inl e \<Rightarrow> Inl e
           | Inr fs1 \<Rightarrow>
               (case exec fs1 (sassCommand entryPath outputPath) of
                  (None, fs2) \<Rightarrow>
                    Inr (st\<lparr>fsys := fs2, built := Suc (built st),
                             console := console st @ [''  OK: '' @ output' md],
                             commands := commands st @ [sassCommand entryPath outputPath]\<rparr>)
                | (Some msg, fs2) \<Rightarrow>
                    Inr (st\<lparr>fsys := fs2,
                             console := console st
                               @ [''  FAIL: '' @ output' md @ '' '' @ [CHR 0xE2, CHR 0x80, CHR 0x94]
                                  @ '' '' @ msg],
                             commands := commands st @ [sassCommand entryPath outputPath]\<rparr>)))"

fun buildModules ::
    "shell \<Rightarrow> path \<Rightarrow> path \<Rightarrow> module list \<Rightarrow> build_state \<Rightarrow> fs_error + build_state" where
  "buildModules exec SRC DIST [] st = Inr st"
| "buildModules exec SRC DIST (md # rest) st =
     bindE (compileModule exec SRC DIST md st) (buildModules exec SRC DIST rest)"

text \<open>The combined token file, written after the loop.\<close>

definition primPath :: "path \<Rightarrow> path" where
  "primPath DIST = pathJoin (pathJoin DIST ''tokens'') ''primitives.css''"

definition semPath :: "path \<Rightarrow> path" where
  "semPath DIST = pathJoin (pathJoin DIST ''tokens'') ''semantic.css''"

definition allTokensPath :: "path \<Rightarrow> path" where
  "allTokensPath DIST = pathJoin (pathJoin DIST ''tokens'') ''all-tokens.css''"

definition combineTokens :: "path \<Rightarrow> build_state \<Rightarrow> fs_error + build_state" where
  "combineTokens DIST st =
     (if existsSync (fsys st) (primPath DIST) \<and> existsSync (fsys st) (semPath DIST)
      then
        bindE (readFileSync (fsys st) (primPath DIST)) (\<lambda>prim.
        bindE (readFileSync (fsys st) (semPath DIST)) (\<lambda>sem.
        bindE (writeFileSync (fsys st) (allTokensPath DIST) (prim @ [CHR 0x0A] @ sem)) (\<lambda>fs'.
          Inr (st\<lparr>fsys := fs',
                   console := console st @ [''  OK: tokens/all-tokens.css (combined)'']\<rparr>))))
      else Inr st)"

text \<open>The script up to this point, from the state the first log line leaves.\<close>

definition initialState :: "filesystem \<Rightarrow> build_state" where
  "initialState fs =
     \<lparr>fsys = fs, built = 0, skipped = 0,
      console = [''Building individual modules...'' @ [CHR 0x0A]], commands = []\<rparr>"

definition buildAndCombine :: "shell \<Rightarrow> path \<Rightarrow> path \<Rightarrow> filesystem \<Rightarrow> fs_error + build_state" where
  "buildAndCombine exec SRC DIST fs =
     bindE (buildModules exec SRC DIST modules (initialState fs)) (combineTokens DIST)"

section \<open>Reference definitions for the properties\<close>

text \<open>
  A runtime whose numbers are integers, rendered in decimal, on which the examples below
  are evaluated.
\<close>

definition showInt :: "int \<Rightarrow> string" where
  "showInt i = (if i < 0 then ''-'' @ showNat (nat (- i)) else showNat (nat i))"

definition intRuntime :: "int runtime" where
  "intRuntime = \<lparr>numberToString = showInt, numberToBoolean = (\<lambda>n. n \<noteq> 0)\<rparr>"

text \<open>The template literal \<open>${v}${u}\<close>: both values converted to strings and concatenated.\<close>

definition interpolate2 :: "'n runtime \<Rightarrow> 'n jsval \<Rightarrow> 'n jsval \<Rightarrow> js_error + string" where
  "interpolate2 rt v u =
     bindE (toStringJS rt v) (\<lambda>a. bindE (toStringJS rt u) (\<lambda>b. Inr (a @ b)))"

text \<open>
  A string with \<open>N\<close> references, given by its pieces: each segment is the plain text
  before a reference and the path inside its braces, and \<open>rest\<close> is the text after the last
  reference. \<open>withRefs\<close> is the input string, \<open>withVars\<close> the string in which every
  reference is replaced by its \<open>var(--atom-...)\<close>. A segment is well formed when its
  plain text has no opening brace and its path is a non-empty string without braces.
\<close>

fun withRefs :: "(string \<times> string) list \<Rightarrow> string \<Rightarrow> string" where
  "withRefs [] rest = rest"
| "withRefs ((plain, ref) # segs) rest = plain @ ''{'' @ ref @ ''}'' @ withRefs segs rest"

fun withVars :: "(string \<times> string) list \<Rightarrow> string \<Rightarrow> string" where
  "withVars [] rest = rest"
| "withVars ((plain, ref) # segs) rest =
     plain @ ''var(--atom-'' @ dotsToDashes ref @ '')'' @ withVars segs rest"

definition wellFormedSegment :: "string \<times> string \<Rightarrow> bool" where
  "wellFormedSegment seg =
     (CHR ''{'' \<notin> set (fst seg) \<and> snd seg \<noteq> [] \<and> CHR ''{'' \<notin> set (snd seg)
      \<and> CHR ''}'' \<notin> set (snd seg))"






section \<open>Properties of the value converter\<close>

lemma bindE_Inr [simp]: "bindE (Inr x) f = f x"
  by (simp add: bindE_def)

lemma bindE_Inl [simp]: "bindE (Inl e) f = Inl e"
  by (simp add: bindE_def)

lemma drop_proto_upd:
  "k \<noteq> ''__proto__'' \<Longrightarrow> (m(k \<mapsto> v))(''__proto__'' := None) = (m(''__proto__'' := None))(k \<mapsto> v)"
  by (rule fun_upd_twist)

lemmas result_writes = setProperty_def objectAssign_def drop_proto_upd

text \<open>
  C1 (as amended). For every object whose \<open>value\<close> is present and whose \<open>unit\<close> is truthy
  (a non-empty string, for instance), the value converter returns exactly the template
  string \<open>${value}${unit}\<close>, whatever the type tag.
\<close>

theorem dimension_object_css:
  assumes "readProp (JObj fs) ''value'' \<noteq> JUndefined"
    and "truthy rt (readProp (JObj fs) ''unit'')"
  shows "valueToCss rt (JObj fs) type =
         bindE (interpolate2 rt (readProp (JObj fs) ''value'') (readProp (JObj fs) ''unit''))
           (\<lambda>s. Inr (Some s))"
proof -
  from assms(2) have "readProp (JObj fs) ''unit'' \<noteq> JUndefined"
    by (cases "readProp (JObj fs) ''unit''") auto
  with assms show ?thesis
    by (simp add: valueToCss_def dimensionToCss_def interpolate2_def)
qed

text \<open>
  The amended C1 at \<open>{value: 8, unit: "px"}\<close>: the result is \<open>8px\<close>.
\<close>

theorem dimension_object_css_witness:
  "readProp (JObj [(''value'', JNum 8), (''unit'', JStr ''px'')]) ''value'' \<noteq> (JUndefined :: int jsval)
   \<and> truthy intRuntime (readProp (JObj [(''value'', JNum 8), (''unit'', JStr ''px'')]) ''unit'')
   \<and> valueToCss intRuntime (JObj [(''value'', JNum 8), (''unit'', JStr ''px'')]) (JStr ''dimension'')
       = Inr (Some ''8px'')"
  using dimension_object_css [of "[(''value'', JNum 8), (''unit'', JStr ''px'')]" intRuntime "JStr ''dimension''"]
  by (simp add: interpolate2_def intRuntime_def showInt_def showNat.simps digitChar_def)

text \<open>
  C1 as stated fails at \<open>{value: 8, unit: ""}\<close>: \<open>valueToCss\<close> accepts the shape (both fields
  are not \<open>undefined\<close>), but \<open>dimensionToCss\<close> asks for a truthy unit and falls back to
  \<open>String(dim)\<close>, which is \<open>[object Object]\<close> and not \<open>8\<close>.
\<close>

theorem dimension_empty_unit_counterexample:
  "valueToCss intRuntime (JObj [(''value'', JNum 8), (''unit'', JStr '''')]) (JStr ''dimension'')
     = Inr (Some ''[object Object]'')
   \<and> bindE (interpolate2 intRuntime (JNum 8) (JStr '''')) (\<lambda>s. Inr (Some s)) = Inr (Some ''8'')
   \<and> valueToCss intRuntime (JObj [(''value'', JNum 8), (''unit'', JStr '''')]) (JStr ''dimension'')
     \<noteq> bindE (interpolate2 intRuntime (JNum 8) (JStr '''')) (\<lambda>s. Inr (Some s))"
  by (simp add: valueToCss_def dimensionToCss_def interpolate2_def intRuntime_def showInt_def
      showNat.simps digitChar_def)

lemma joinJS_numbers:
  "joinJS rt sep (map JNum ns) = Inr (joinStrings sep (map (numberToString rt) ns))"
proof (induction ns)
  case Nil
  show ?case by simp
next
  case (Cons n ns)
  then show ?case by (cases ns) simp_all
qed

text \<open>
  C2. Under the type \<open>cubicBezier\<close>, an array of exactly four numbers becomes
  \<open>cubic-bezier(n1, n2, n3, n4)\<close> in the original order; an array of any other length is
  converted by \<open>String(arr)\<close>, and for an array of numbers that is the comma-joined list,
  not an error.
\<close>

theorem cubic_bezier_css:
  "valueToCss rt (JArr [JNum a, JNum b, JNum c, JNum d]) (JStr ''cubicBezier'')
     = Inr (Some (''cubic-bezier('' @ numberToString rt a @ '', '' @ numberToString rt b @ '', ''
                  @ numberToString rt c @ '', '' @ numberToString rt d @ '')''))
   \<and> (length xs \<noteq> 4 \<longrightarrow>
        valueToCss rt (JArr xs) (JStr ''cubicBezier'')
          = bindE (toStringJS rt (JArr xs)) (\<lambda>s. Inr (Some s)))
   \<and> (length ns \<noteq> 4 \<longrightarrow>
        valueToCss rt (JArr (map JNum ns)) (JStr ''cubicBezier'')
          = Inr (Some (joinStrings '','' (map (numberToString rt) ns))))"
proof (intro conjI impI)
  show "valueToCss rt (JArr [JNum a, JNum b, JNum c, JNum d]) (JStr ''cubicBezier'')
     = Inr (Some (''cubic-bezier('' @ numberToString rt a @ '', '' @ numberToString rt b @ '', ''
                  @ numberToString rt c @ '', '' @ numberToString rt d @ '')''))"
    by (simp add: valueToCss_def cubicBezierToCss_def)
next
  assume "length xs \<noteq> 4"
  then show "valueToCss rt (JArr xs) (JStr ''cubicBezier'')
          = bindE (toStringJS rt (JArr xs)) (\<lambda>s. Inr (Some s))"
    by (simp add: valueToCss_def cubicBezierToCss_def)
next
  assume "length ns \<noteq> 4"
  then show "valueToCss rt (JArr (map JNum ns)) (JStr ''cubicBezier'')
          = Inr (Some (joinStrings '','' (map (numberToString rt) ns)))"
    by (simp add: valueToCss_def cubicBezierToCss_def joinJS_numbers)
qed

text \<open>
  C2 at \<open>[0, 0, 1, 1]\<close> and at the three-element array \<open>[1, 2, 3]\<close>.
\<close>

theorem cubic_bezier_css_witness:
  "valueToCss intRuntime (JArr [JNum 0, JNum 0, JNum 1, JNum 1]) (JStr ''cubicBezier'')
     = Inr (Some ''cubic-bezier(0, 0, 1, 1)'')
   \<and> length [JNum 1, JNum 2, JNum (3::int)] \<noteq> 4
   \<and> valueToCss intRuntime (JArr [JNum 1, JNum 2, JNum 3]) (JStr ''cubicBezier'') = Inr (Some ''1,2,3'')
   \<and> length [1, 2, 3 :: int] \<noteq> 4
   \<and> valueToCss intRuntime (JArr (map JNum [1, 2, 3])) (JStr ''cubicBezier'') = Inr (Some ''1,2,3'')"
  using cubic_bezier_css [of intRuntime 0 0 1 1 "[JNum 1, JNum 2, JNum 3]" "[1, 2, 3]"]
  by (simp add: intRuntime_def showInt_def showNat.simps digitChar_def)

section \<open>Properties of the reference resolver\<close>

lemma replaceRefs_plain:
  "CHR ''{'' \<notin> set plain \<Longrightarrow> replaceRefs (plain @ s) = plain @ replaceRefs s"
  by (induction plain) auto

lemma replaceRefs_ref:
  assumes "ref \<noteq> []" and "CHR ''}'' \<notin> set ref"
  shows "replaceRefs (''{'' @ ref @ ''}'' @ s) = ''var(--atom-'' @ dotsToDashes ref @ '')'' @ replaceRefs s"
proof -
  have tw: "takeWhile (\<lambda>x. x \<noteq> CHR ''}'') (ref @ CHR ''}'' # s) = ref"
    using assms(2) by (induction ref) auto
  have dw: "dropWhile (\<lambda>x. x \<noteq> CHR ''}'') (ref @ CHR ''}'' # s) = CHR ''}'' # s"
    using assms(2) by (induction ref) auto
  show ?thesis using assms(1) by (simp add: tw dw PREFIX_def)
qed

lemma replaceRefs_withRefs:
  "list_all wellFormedSegment segs \<Longrightarrow> CHR ''{'' \<notin> set rest \<Longrightarrow>
   replaceRefs (withRefs segs rest) = withVars segs rest"
proof (induction segs)
  case Nil
  then show ?case using replaceRefs_plain [of rest "[]"] by simp
next
  case (Cons seg segs)
  obtain plain ref where seg: "seg = (plain, ref)" by (cases seg)
  from Cons.prems seg have wf: "CHR ''{'' \<notin> set plain" "ref \<noteq> []" "CHR ''}'' \<notin> set ref"
    by (simp_all add: wellFormedSegment_def)
  have "replaceRefs (withRefs (seg # segs) rest)
        = plain @ replaceRefs (''{'' @ ref @ ''}'' @ withRefs segs rest)"
    using replaceRefs_plain [OF wf(1)] by (simp add: seg)
  also have "\<dots> = plain @ ''var(--atom-'' @ dotsToDashes ref @ '')'' @ replaceRefs (withRefs segs rest)"
    using replaceRefs_ref [OF wf(2,3)] by simp
  also have "\<dots> = withVars (seg # segs) rest"
    using Cons by (simp add: seg)
  finally show ?case .
qed

lemma withVars_no_brace:
  "list_all wellFormedSegment segs \<Longrightarrow> CHR ''{'' \<notin> set rest \<Longrightarrow>
   CHR ''{'' \<notin> set (withVars segs rest)"
  by (induction segs) (auto simp: wellFormedSegment_def dotsToDashes_def)

text \<open>
  C3 (as amended). A string in which every opening brace begins a reference, that is a
  string made of plain text without an opening brace and \<open>N\<close> brace-delimited references
  whose paths are not empty and contain no brace, is resolved to the same text with every
  one of the \<open>N\<close> references replaced, each on its own, by \<open>var(--atom-\<close>path with
  dashes for dots\<open>)\<close>; no opening brace, and so no reference, is left in the result.
\<close>

theorem resolveReferences_all:
  assumes "list_all wellFormedSegment segs" and "CHR ''{'' \<notin> set rest"
  shows "resolveReferences (JStr (withRefs segs rest)) = JStr (withVars segs rest)
         \<and> CHR ''{'' \<notin> set (withVars segs rest)"
  using assms by (simp add: resolveReferences_def replaceRefs_withRefs withVars_no_brace)

text \<open>
  The amended C3 at \<open>{color.zinc.900}\<close>, which becomes \<open>var(--atom-color-zinc-900)\<close>, and
  at a string with two references.
\<close>

theorem resolveReferences_all_witness:
  "list_all wellFormedSegment [([], ''color.zinc.900'')] \<and> CHR ''{'' \<notin> set ([] :: string)
   \<and> resolveReferences (JStr ''{color.zinc.900}'') = JStr ''var(--atom-color-zinc-900)''
   \<and> list_all wellFormedSegment [(''1px solid '', ''color.zinc.900''), ('' '', ''a.b'')]
   \<and> CHR ''{'' \<notin> set ''!''
   \<and> resolveReferences (JStr ''1px solid {color.zinc.900} {a.b}!'')
      = JStr ''1px solid var(--atom-color-zinc-900) var(--atom-a-b)!''"
  using resolveReferences_all [of "[([], ''color.zinc.900'')]" "[]"]
    resolveReferences_all [of "[(''1px solid '', ''color.zinc.900''), ('' '', ''a.b'')]" "''!''"]
  by (simp add: wellFormedSegment_def dotsToDashes_def)

text \<open>
  C3 as stated fails at \<open>{{a.b}}\<close>, which contains the reference \<open>{a.b}\<close> behind an
  opening brace. The pattern lets an opening brace stand inside the captured run, so the
  match starts at the first brace and captures \<open>{a.b\<close>: the reference is not rewritten to
  \<open>var(--atom-a-b)\<close>, and the result \<open>var(--atom-{a-b)}\<close> still holds braces.
\<close>

theorem brace_before_reference_counterexample:
  "resolveReferences (JStr (withRefs [(''{'', ''a.b'')] ''}'')) = JStr ''var(--atom-{a-b)}''
   \<and> withRefs [(''{'', ''a.b'')] ''}'' = ''{{a.b}}''
   \<and> withVars [(''{'', ''a.b'')] ''}'' = ''{var(--atom-a-b)}''
   \<and> resolveReferences (JStr (withRefs [(''{'', ''a.b'')] ''}''))
       \<noteq> JStr (withVars [(''{'', ''a.b'')] ''}'')
   \<and> CHR ''{'' \<in> set ''var(--atom-{a-b)}''"
  by (simp add: resolveReferences_def dotsToDashes_def PREFIX_def)

section \<open>Properties of the flattening loop\<close>

text \<open>
  One pass of the loop body, then the rest of the loop: the loop over a list is the loop
  over its first entry followed by the loop over the others, and an exception ends both.
\<close>

lemma flattenLoop_Cons:
  "flattenLoop rt (e # rest) parentKey parentType result
   = bindE (flattenLoop rt [e] parentKey parentType result) (flattenLoop rt rest parentKey parentType)"
proof -
  obtain k v where e: "e = (k, v)" by (cases e)
  show ?thesis
  proof (cases "startsWith k ''$''")
    case True
    then show ?thesis by (simp add: e)
  next
    case False
    show ?thesis
    proof (cases "if typeofObject v then extractValue v else Inr JNull")
      case (Inl err)
      with False show ?thesis by (simp add: e Let_def)
    next
      case (Inr tokenValue)
      show ?thesis
      proof (cases "tokenValue = JNull")
        case True
        with False Inr show ?thesis
          by (cases "flattenTokens rt v (if parentKey \<noteq> [] then parentKey @ ''-'' @ k else k)
                       (localTypeOf rt v parentType)")
             (simp_all add: e Let_def)
      next
        case notNull: False
        with False Inr show ?thesis
          by (cases "valueToCss rt tokenValue (localTypeOf rt v parentType)")
             (simp_all add: e Let_def)
      qed
    qed
  qed
qed


lemma bindE_assoc: "bindE (bindE m f) g = bindE m (\<lambda>x. bindE (f x) g)"
  by (cases m) simp_all

lemma flattenLoop_append:
  "flattenLoop rt (es1 @ es2) parentKey parentType result
   = bindE (flattenLoop rt es1 parentKey parentType result) (flattenLoop rt es2 parentKey parentType)"
proof (induction es1 arbitrary: result)
  case Nil
  show ?case by simp
next
  case (Cons e es1)
  have "flattenLoop rt ((e # es1) @ es2) parentKey parentType result
        = bindE (flattenLoop rt [e] parentKey parentType result)
            (flattenLoop rt (es1 @ es2) parentKey parentType)"
    using flattenLoop_Cons [of rt e "es1 @ es2"] by simp
  also have "\<dots> = bindE (flattenLoop rt [e] parentKey parentType result)
            (\<lambda>r. bindE (flattenLoop rt es1 parentKey parentType r)
                   (flattenLoop rt es2 parentKey parentType))"
    using Cons.IH by presburger
  also have "\<dots> = bindE (bindE (flattenLoop rt [e] parentKey parentType result)
                          (flattenLoop rt es1 parentKey parentType))
                     (flattenLoop rt es2 parentKey parentType)"
    by (simp only: bindE_assoc)
  also have "\<dots> = bindE (flattenLoop rt (e # es1) parentKey parentType result)
                     (flattenLoop rt es2 parentKey parentType)"
    using flattenLoop_Cons [of rt e es1] by simp
  finally show ?case .
qed

lemma flattenLoop_skip:
  assumes "flattenLoop rt [e] parentKey parentType = Inr"
  shows "flattenLoop rt (es1 @ e # es2) parentKey parentType result
         = flattenLoop rt (es1 @ es2) parentKey parentType result"
proof -
  have "flattenLoop rt (e # es2) parentKey parentType = flattenLoop rt es2 parentKey parentType"
  proof
    fix r
    show "flattenLoop rt (e # es2) parentKey parentType r = flattenLoop rt es2 parentKey parentType r"
      using flattenLoop_Cons [of rt e es2 parentKey parentType r] by (simp add: assms)
  qed
  then show ?thesis
    using flattenLoop_append [of rt es1 "e # es2"] flattenLoop_append [of rt es1 es2] by simp
qed

text \<open>
  C7. An entry whose key begins with \<open>$\<close> is skipped entirely: wherever it stands among
  the entries, and whatever its value is, the loop gives the result it gives without the
  entry. The value is neither converted nor recursed into (it may even be \<open>null\<close>).
\<close>

theorem sigil_key_skipped:
  assumes "startsWith key ''$''"
  shows "flattenLoop rt (es1 @ (key, value) # es2) parentKey parentType result
         = flattenLoop rt (es1 @ es2) parentKey parentType result"
proof (rule flattenLoop_skip)
  show "flattenLoop rt [(key, value)] parentKey parentType = Inr"
    using assms by (intro ext) simp
qed

text \<open>
  C7 at a \<open>$description\<close> entry between two tokens.
\<close>

theorem sigil_key_skipped_witness:
  "startsWith ''$description'' ''$''
   \<and> flattenLoop intRuntime
        ([(''a'', JObj [(''$value'', JStr ''#fff'')])] @ (''$description'', JNull) # [(''b'', JObj [(''$value'', JNum 2)])])
        [] JNull Map.empty
     = flattenLoop intRuntime
        ([(''a'', JObj [(''$value'', JStr ''#fff'')])] @ [(''b'', JObj [(''$value'', JNum 2)])])
        [] JNull Map.empty
   \<and> flattenLoop intRuntime
        [(''a'', JObj [(''$value'', JStr ''#fff'')]), (''b'', JObj [(''$value'', JNum 2)])]
        [] JNull Map.empty
     = Inr [''a'' \<mapsto> ''#fff'', ''b'' \<mapsto> ''2'']"
  using sigil_key_skipped [of "''$description''" intRuntime "[(''a'', JObj [(''$value'', JStr ''#fff'')])]"
      JNull "[(''b'', JObj [(''$value'', JNum 2)])]" "[]" JNull Map.empty]
  by (simp add: startsWith_def Let_def extractValue_def result_writes localTypeOf_def valueToCss_def
      intRuntime_def showInt_def showNat.simps digitChar_def)

text \<open>
  C10. An entry whose value is not of type object (a bare string, number or boolean) is
  dropped: wherever it stands, the loop gives the result it gives without the entry, so no
  key is emitted for it and nothing is recursed into.
\<close>

theorem non_object_dropped:
  assumes "\<not> typeofObject value"
  shows "flattenLoop rt (es1 @ (key, value) # es2) parentKey parentType result
         = flattenLoop rt (es1 @ es2) parentKey parentType result"
proof (rule flattenLoop_skip)
  show "flattenLoop rt [(key, value)] parentKey parentType = Inr"
    using assms by (intro ext) (simp add: Let_def)
qed

text \<open>
  C10 at a bare string, a bare number and a bare boolean beside a token.
\<close>

theorem non_object_dropped_witness:
  "\<not> typeofObject (JStr ''bare'' :: int jsval)
   \<and> flattenLoop intRuntime
        ([(''a'', JObj [(''$value'', JStr ''#fff'')])] @ (''note'', JStr ''bare'') # [(''n'', JNum 3), (''t'', JBool True)])
        ''color'' JNull Map.empty
     = flattenLoop intRuntime
        ([(''a'', JObj [(''$value'', JStr ''#fff'')])] @ [(''n'', JNum 3), (''t'', JBool True)])
        ''color'' JNull Map.empty
   \<and> flattenTokens intRuntime
        (JObj [(''a'', JObj [(''$value'', JStr ''#fff'')]), (''note'', JStr ''bare''), (''n'', JNum 3), (''t'', JBool True)])
        ''color'' JNull
     = Inr [''color-a'' \<mapsto> ''#fff'']"
  using non_object_dropped [of "JStr ''bare''" intRuntime "[(''a'', JObj [(''$value'', JStr ''#fff'')])]"
      "''note''" "[(''n'', JNum 3), (''t'', JBool True)]" "''color''" JNull Map.empty]
  by (simp add: flattenTokens.simps startsWith_def Let_def extractValue_def result_writes localTypeOf_def valueToCss_def)

text \<open>
  C6 fails on the code at the legacy leaf \<open>{"a": {"value": null}}\<close>. \<open>extractValue\<close>
  returns \<open>null\<close>, which the loop takes for "no value": the leaf is recursed into as a
  group, its entry \<open>value\<close> is \<open>null\<close>, \<open>typeof null\<close> is \<open>object\<close>, and
  \<open>extractValue(null)\<close> throws a \<open>TypeError\<close>.
\<close>

theorem null_legacy_value_throws:
  "flattenTokens rt (JObj [(''a'', JObj [(''value'', JNull)])]) [] JNull = Inl TypeError"
  by (simp add: flattenTokens.simps startsWith_def Let_def extractValue_def result_writes localTypeOf_def)

text \<open>
  The DTCG spelling of the same leaf, \<open>$value: null\<close> beside metadata only, is omitted
  without an error, as the test \<open>css !== null\<close> of the loop intends.
\<close>

lemma null_dtcg_value_omitted:
  "flattenTokens rt (JObj [(''a'', JObj [(''$value'', JNull), (''$type'', JStr ''color'')])]) [] JNull = Inr Map.empty"
  by (simp add: flattenTokens.simps startsWith_def Let_def extractValue_def result_writes localTypeOf_def)

text \<open>
  A key \<open>__proto__\<close> is never stored in the result.
\<close>

lemma proto_key_not_stored:
  "flattenTokens rt
     (JObj [(''__proto__'', JObj [(''$value'', JStr ''x'')]), (''a'', JObj [(''$value'', JStr ''y'')])])
     [] JNull
   = Inr [''a'' \<mapsto> ''y'']"
  by (simp add: flattenTokens.simps startsWith_def Let_def extractValue_def result_writes
      localTypeOf_def valueToCss_def)

section \<open>Shape before type\<close>

text \<open>
  C4 (as amended). An object with a \<open>value\<close> field and a truthy \<open>unit\<close> field is
  dimension-converted, to the template string \<open>${value}${unit}\<close>, whatever the type tag
  handed to the value converter; and when such an object is the \<open>$value\<close> of an entry, the
  loop stores that string under the entry's key whatever type the entry declares and
  whatever type it inherits.
\<close>

theorem shape_before_type:
  assumes "readProp (JObj fs) ''value'' \<noteq> JUndefined"
    and "truthy rt (readProp (JObj fs) ''unit'')"
  shows "valueToCss rt (JObj fs) type
         = bindE (interpolate2 rt (readProp (JObj fs) ''value'') (readProp (JObj fs) ''unit''))
             (\<lambda>s. Inr (Some s))
       \<and> (\<not> startsWith key ''$'' \<and> readProp node ''$value'' = JObj fs \<longrightarrow>
            flattenLoop rt ((key, node) # rest) parentKey parentType result
            = bindE (interpolate2 rt (readProp (JObj fs) ''value'') (readProp (JObj fs) ''unit''))
                (\<lambda>s. flattenLoop rt rest parentKey parentType
                       (setProperty result
                          (if parentKey \<noteq> [] then parentKey @ ''-'' @ key else key) s)))"
proof -
  from assms(2) have unit: "readProp (JObj fs) ''unit'' \<noteq> JUndefined"
    by (cases "readProp (JObj fs) ''unit''") auto
  have conv: "valueToCss rt (JObj fs) t
         = bindE (interpolate2 rt (readProp (JObj fs) ''value'') (readProp (JObj fs) ''unit''))
             (\<lambda>s. Inr (Some s))" for t
    using assms unit by (simp add: valueToCss_def dimensionToCss_def interpolate2_def)
  have "flattenLoop rt ((key, node) # rest) parentKey parentType result
        = bindE (interpolate2 rt (readProp (JObj fs) ''value'') (readProp (JObj fs) ''unit''))
            (\<lambda>s. flattenLoop rt rest parentKey parentType
                   (setProperty result
                      (if parentKey \<noteq> [] then parentKey @ ''-'' @ key else key) s))"
    if key: "\<not> startsWith key ''$''" and node: "readProp node ''$value'' = JObj fs"
  proof -
    from node obtain ps where ps: "node = JObj ps" by (cases node) simp_all
    from node ps have ev: "extractValue node = Inr (JObj fs)"
      by (simp add: extractValue_def)
    show ?thesis
    proof (cases "interpolate2 rt (readProp (JObj fs) ''value'') (readProp (JObj fs) ''unit'')")
      case (Inl err)
      with key ps ev conv [of "localTypeOf rt node parentType"] show ?thesis
        by (simp add: Let_def)
    next
      case (Inr str)
      with key ps ev conv [of "localTypeOf rt node parentType"] show ?thesis
        by (simp add: Let_def)
    qed
  qed
  with conv [of type] show ?thesis by blast
qed

text \<open>
  The amended C4 at an object that has an \<open>offsetX\<close> as well, under the type \<open>shadow\<close>, and
  at an entry that declares \<open>shadow\<close> inside a group of type \<open>cubicBezier\<close>.
\<close>

theorem shape_before_type_witness:
  "readProp (JObj [(''offsetX'', JStr ''1px''), (''value'', JNum 4), (''unit'', JStr ''px'')]) ''value''
     \<noteq> (JUndefined :: int jsval)
   \<and> truthy intRuntime
        (readProp (JObj [(''offsetX'', JStr ''1px''), (''value'', JNum 4), (''unit'', JStr ''px'')]) ''unit'')
   \<and> valueToCss intRuntime
        (JObj [(''offsetX'', JStr ''1px''), (''value'', JNum 4), (''unit'', JStr ''px'')]) (JStr ''shadow'')
      = Inr (Some ''4px'')
   \<and> \<not> startsWith ''gap'' ''$''
   \<and> readProp (JObj [(''$type'', JStr ''shadow''),
          (''$value'', JObj [(''offsetX'', JStr ''1px''), (''value'', JNum 4), (''unit'', JStr ''px'')])])
        ''$value''
      = (JObj [(''offsetX'', JStr ''1px''), (''value'', JNum 4), (''unit'', JStr ''px'')] :: int jsval)
   \<and> flattenLoop intRuntime
        [(''gap'', JObj [(''$type'', JStr ''shadow''),
           (''$value'', JObj [(''offsetX'', JStr ''1px''), (''value'', JNum 4), (''unit'', JStr ''px'')])])]
        ''space'' (JStr ''cubicBezier'') Map.empty
      = Inr [''space-gap'' \<mapsto> ''4px'']"
  using shape_before_type [of "[(''offsetX'', JStr ''1px''), (''value'', JNum 4), (''unit'', JStr ''px'')]"
      intRuntime "JStr ''shadow''" "''gap''"
      "JObj [(''$type'', JStr ''shadow''),
         (''$value'', JObj [(''offsetX'', JStr ''1px''), (''value'', JNum 4), (''unit'', JStr ''px'')])]"
      "[]" "''space''" "JStr ''cubicBezier''" Map.empty]
  by (simp add: interpolate2_def startsWith_def setProperty_def
      intRuntime_def showInt_def showNat.simps digitChar_def)

text \<open>
  C4 as stated fails at \<open>{value: 4, unit: ""}\<close> under the type \<open>shadow\<close>: both fields are
  there, yet the unit is not truthy, so \<open>dimensionToCss\<close> falls back to \<open>String(dim)\<close> and
  the result is \<open>[object Object]\<close>, not the dimension \<open>4\<close>.
\<close>

theorem shape_with_empty_unit_counterexample:
  "readProp (JObj [(''value'', JNum 4), (''unit'', JStr [])]) ''value'' \<noteq> (JUndefined :: int jsval)
   \<and> readProp (JObj [(''value'', JNum 4), (''unit'', JStr [])]) ''unit'' \<noteq> (JUndefined :: int jsval)
   \<and> valueToCss intRuntime (JObj [(''value'', JNum 4), (''unit'', JStr [])]) (JStr ''shadow'')
       = Inr (Some ''[object Object]'')
   \<and> bindE (interpolate2 intRuntime (JNum 4) (JStr [])) (\<lambda>s. Inr (Some s)) = Inr (Some ''4'')
   \<and> valueToCss intRuntime (JObj [(''value'', JNum 4), (''unit'', JStr [])]) (JStr ''shadow'')
       \<noteq> bindE (interpolate2 intRuntime (JNum 4) (JStr [])) (\<lambda>s. Inr (Some s))"
  by (simp add: valueToCss_def dimensionToCss_def interpolate2_def intRuntime_def showInt_def
      showNat.simps digitChar_def)

section \<open>Type inheritance\<close>








text \<open>
  A \<open>$type\<close> on the object handed to \<open>flattenTokens\<close> itself is not read by the loop, which
  skips the key as metadata and starts from the \<open>parentType\<close> argument. Such trees are
  outside the amended C5.
\<close>

lemma type_on_flattened_object_not_read:
  "flattenTokens intRuntime
     (JObj [(''$type'', JStr ''cubicBezier''), (''ease'', JObj [(''$value'', JArr [JNum 1, JNum 2, JNum 3, JNum 4])])])
     [] JNull
   = Inr [''ease'' \<mapsto> ''1,2,3,4'']"
  by (simp add: flattenTokens.simps startsWith_def Let_def extractValue_def result_writes
      localTypeOf_def valueToCss_def intRuntime_def showInt_def showNat.simps digitChar_def)

section \<open>Properties of the module compiler\<close>

text \<open>
  C8. An entry whose source file does not exist is skipped: the body of the loop changes
  only the \<open>skipped\<close> counter and the log, so the file system (files and directories), the
  list of commands run and the \<open>built\<close> counter are as before, and the loop goes on with
  the remaining entries from that state.
\<close>

theorem missing_source_skipped:
  assumes "\<not> existsSync (fsys st) (pathJoin SRC (entry md))"
  shows "compileModule exec SRC DIST md st
         = Inr (st\<lparr>skipped := Suc (skipped st),
                   console := console st @ [''  SKIP: '' @ entry md @ '' (not found)'']\<rparr>)
       \<and> buildModules exec SRC DIST (md # rest) st
         = buildModules exec SRC DIST rest
             (st\<lparr>skipped := Suc (skipped st),
                 console := console st @ [''  SKIP: '' @ entry md @ '' (not found)'']\<rparr>)"
  using assms by (simp add: compileModule_def Let_def)

text \<open>
  C8 at a manifest entry whose source is missing, with a compiler that would write a
  file if it were run.
\<close>

theorem missing_source_skipped_witness:
  "\<not> existsSync (fsys (initialState \<lparr>files = Map.empty, dirs = {''/p/src''}\<rparr>))
        (pathJoin ''/p/src'' (entry \<lparr>entry = ''tokens/_primitive.scss'', output' = ''tokens/primitives.css''\<rparr>))
   \<and> compileModule (\<lambda>fs cmd. (None, fs\<lparr>files := (files fs)(''/p/dist/x.css'' \<mapsto> cmd)\<rparr>)) ''/p/src'' ''/p/dist''
        \<lparr>entry = ''tokens/_primitive.scss'', output' = ''tokens/primitives.css''\<rparr>
        (initialState \<lparr>files = Map.empty, dirs = {''/p/src''}\<rparr>)
     = Inr \<lparr>fsys = \<lparr>files = Map.empty, dirs = {''/p/src''}\<rparr>, built = 0, skipped = 1,
            console = [''Building individual modules...'' @ [CHR 0x0A],
                       ''  SKIP: tokens/_primitive.scss (not found)''],
            commands = []\<rparr>"
  using missing_source_skipped [of "initialState \<lparr>files = Map.empty, dirs = {''/p/src''}\<rparr>" "''/p/src''"
      "\<lparr>entry = ''tokens/_primitive.scss'', output' = ''tokens/primitives.css''\<rparr>"
      "\<lambda>fs cmd. (None, fs\<lparr>files := (files fs)(''/p/dist/x.css'' \<mapsto> cmd)\<rparr>)" "''/p/dist''" "[]"]
  by (simp add: existsSync_def initialState_def pathJoin_def)

text \<open>
  C9. When \<open>tokens/primitives.css\<close> and \<open>tokens/semantic.css\<close> are both files of the
  output tree, the script writes \<open>tokens/all-tokens.css\<close> with the text of the first, one
  newline and the text of the second; when one of the two does not exist it writes
  nothing and leaves the state as it is.
\<close>

theorem combined_tokens_written:
  "(files (fsys st) (primPath DIST) = Some prim \<and> files (fsys st) (semPath DIST) = Some sem \<longrightarrow>
      combineTokens DIST st
      = bindE (writeFileSync (fsys st) (allTokensPath DIST) (prim @ [CHR 0x0A] @ sem)) (\<lambda>fs'.
          Inr (st\<lparr>fsys := fs',
                   console := console st @ [''  OK: tokens/all-tokens.css (combined)'']\<rparr>)))
   \<and> (files (fsys st) (primPath DIST) = Some prim \<and> files (fsys st) (semPath DIST) = Some sem
        \<and> allTokensPath DIST \<notin> dirs (fsys st) \<longrightarrow>
      combineTokens DIST st
      = Inr (st\<lparr>fsys := (fsys st)\<lparr>files := (files (fsys st))(allTokensPath DIST \<mapsto> prim @ [CHR 0x0A] @ sem)\<rparr>,
                 console := console st @ [''  OK: tokens/all-tokens.css (combined)'']\<rparr>))
   \<and> (\<not> (existsSync (fsys st) (primPath DIST) \<and> existsSync (fsys st) (semPath DIST)) \<longrightarrow>
      combineTokens DIST st = Inr st)"
  by (auto simp: combineTokens_def existsSync_def readFileSync_def writeFileSync_def)


text \<open>
  C9 at a tree with both files, and at a tree with the primitives file only.
\<close>

theorem combined_tokens_written_witness:
  "files (fsys (initialState \<lparr>files = [''/d/tokens/primitives.css'' \<mapsto> ''a{}'', ''/d/tokens/semantic.css'' \<mapsto> ''b{}''],
                               dirs = {''/d'', ''/d/tokens''}\<rparr>)) (primPath ''/d'') = Some ''a{}''
   \<and> files (fsys (initialState \<lparr>files = [''/d/tokens/primitives.css'' \<mapsto> ''a{}'', ''/d/tokens/semantic.css'' \<mapsto> ''b{}''],
                               dirs = {''/d'', ''/d/tokens''}\<rparr>)) (semPath ''/d'') = Some ''b{}''
   \<and> allTokensPath ''/d'' \<notin> dirs (fsys (initialState
         \<lparr>files = [''/d/tokens/primitives.css'' \<mapsto> ''a{}'', ''/d/tokens/semantic.css'' \<mapsto> ''b{}''],
          dirs = {''/d'', ''/d/tokens''}\<rparr>))
   \<and> combineTokens ''/d'' (initialState
         \<lparr>files = [''/d/tokens/primitives.css'' \<mapsto> ''a{}'', ''/d/tokens/semantic.css'' \<mapsto> ''b{}''],
          dirs = {''/d'', ''/d/tokens''}\<rparr>)
     = Inr \<lparr>fsys = \<lparr>files = [''/d/tokens/primitives.css'' \<mapsto> ''a{}'', ''/d/tokens/semantic.css'' \<mapsto> ''b{}'',
                               ''/d/tokens/all-tokens.css'' \<mapsto> ''a{}'' @ [CHR 0x0A] @ ''b{}''],
                     dirs = {''/d'', ''/d/tokens''}\<rparr>,
            built = 0, skipped = 0,
            console = [''Building individual modules...'' @ [CHR 0x0A], ''  OK: tokens/all-tokens.css (combined)''],
            commands = []\<rparr>
   \<and> \<not> (existsSync (fsys (initialState \<lparr>files = [''/d/tokens/primitives.css'' \<mapsto> ''a{}''], dirs = {''/d'', ''/d/tokens''}\<rparr>))
            (primPath ''/d'')
         \<and> existsSync (fsys (initialState \<lparr>files = [''/d/tokens/primitives.css'' \<mapsto> ''a{}''], dirs = {''/d'', ''/d/tokens''}\<rparr>))
            (semPath ''/d''))
   \<and> combineTokens ''/d'' (initialState \<lparr>files = [''/d/tokens/primitives.css'' \<mapsto> ''a{}''], dirs = {''/d'', ''/d/tokens''}\<rparr>)
     = Inr (initialState \<lparr>files = [''/d/tokens/primitives.css'' \<mapsto> ''a{}''], dirs = {''/d'', ''/d/tokens''}\<rparr>)"
  using combined_tokens_written [of
      "initialState \<lparr>files = [''/d/tokens/primitives.css'' \<mapsto> ''a{}'', ''/d/tokens/semantic.css'' \<mapsto> ''b{}''],
                     dirs = {''/d'', ''/d/tokens''}\<rparr>" "''/d''" "''a{}''" "''b{}''"]
    combined_tokens_written [of
      "initialState \<lparr>files = [''/d/tokens/primitives.css'' \<mapsto> ''a{}''], dirs = {''/d'', ''/d/tokens''}\<rparr>" "''/d''"]
  by (simp add: initialState_def primPath_def semPath_def allTokensPath_def pathJoin_def existsSync_def
      writeFileSync_def)

end
